theory Spec2Isabelle
  imports Main "HOL-Library.Word" "HOL-Library.Multiset"
begin

section \<open>Shared data model\<close>

text \<open>
  Byte slices and Go strings are byte lists.  A point in time is an integer (the
  instants of one clock); \<open>Before\<close> is \<open><\<close> on it.
\<close>

type_synonym bytes = string
type_synonym time = int

text \<open>
  Go errors.  \<open>errors_New s\<close> is \<open>errors.New(s)\<close>; \<open>fmt_Errorf f args\<close> is
  \<open>fmt.Errorf(f, args...)\<close>, kept as the format string with its arguments;
  \<open>StatusNotFound\<close> is an API status error for which \<open>k8sErrors.IsNotFound\<close> holds;
  \<open>OtherError\<close> is any other error of a collaborator (parser, store, backend, network);
  \<open>Aggregate\<close> is what \<open>utilerrors.NewAggregate\<close> builds.
\<close>

datatype error =
    errors_New string
  | fmt_Errorf string "string list"
  | StatusNotFound string
  | OtherError string
  | Aggregate "error list"

fun IsNotFound :: "error \<Rightarrow> bool" where
  "IsNotFound (StatusNotFound m) = True"
| "IsNotFound e = False"

text \<open>
  \<open>utilerrors.NewAggregate\<close> (k8s.io/apimachinery): nil entries are dropped, and a list
  with nothing left gives nil.
\<close>

definition NewAggregate :: "error option list \<Rightarrow> error option" where
  "NewAggregate errlist =
     (case List.map_filter id errlist of
        [] \<Rightarrow> None
      | es \<Rightarrow> Some (Aggregate es))"

record ObjectReference =
  Name :: string
  Kind :: string
  Group :: string

record CertificateRequestCondition =
  Type :: string
  ConditionStatus :: string
  Reason :: string
  Message :: string
  LastTransitionTime :: "time option"

record CertificateRequestStatus =
  Conditions :: "CertificateRequestCondition list"
  Certificate :: bytes
  CA :: bytes
  NotAfter :: "time option"

record CertificateRequestSpec =
  IssuerRef :: ObjectReference
  CSRPem :: bytes

record CertificateRequest =
  ObjectMeta_Name :: string
  Namespace :: string
  Spec :: CertificateRequestSpec
  Status :: CertificateRequestStatus

text \<open>
  Modelled from the spec: the condition type and status constants of the API package
  (\<open>CertificateRequestConditionReady\<close>, \<open>...Approved\<close>, \<open>...Denied\<close>,
  \<open>ConditionTrue\<close>, \<open>ConditionFalse\<close>), which the sources here only refer to.  They are
  Go string constants.
\<close>

definition CertificateRequestConditionReady :: string where
  "CertificateRequestConditionReady = ''Ready''"

definition CertificateRequestConditionApproved :: string where
  "CertificateRequestConditionApproved = ''Approved''"

definition CertificateRequestConditionDenied :: string where
  "CertificateRequestConditionDenied = ''Denied''"

definition ConditionTrue :: string where
  "ConditionTrue = ''True''"

definition ConditionFalse :: string where
  "ConditionFalse = ''False''"

text \<open>
  Modelled from the spec: \<open>GetCertificateRequestCondition\<close> (read-by-type of the
  Condition Store, section 4.3), absent from the sources: the first condition of the
  wanted type, nil when there is none.
\<close>

fun GetCertificateRequestCondition ::
  "CertificateRequestCondition list \<Rightarrow> string \<Rightarrow> CertificateRequestCondition option" where
  "GetCertificateRequestCondition [] t = None"
| "GetCertificateRequestCondition (c # cs) t =
     (if Type c = t then Some c else GetCertificateRequestCondition cs t)"


section \<open>Issuer resolution (package issuers, \<open>getterImpl.Issuer\<close>)\<close>

text \<open>
  Modelled from the spec: the kind constants \<open>cmapi.IssuerKind\<close> and
  \<open>cmapi.ClusterIssuerKind\<close> (the namespaced and the cluster-scoped kind), declared in
  the API package; the e2e helper switches on the literal \<open>"ClusterIssuer"\<close>.
\<close>

definition IssuerKind :: string where
  "IssuerKind = ''Issuer''"

definition ClusterIssuerKind :: string where
  "ClusterIssuerKind = ''ClusterIssuer''"

record IssuerCondition =
  ic_Type :: string
  ic_Status :: string
  ic_Reason :: string
  ic_Message :: string

record GenericIssuer =
  issuer_Name :: string
  issuer_Namespace :: string
  issuer_Conditions :: "IssuerCondition list"

text \<open>
  The two listers: \<open>issuerLister.Issuers(ns).Get(name)\<close> and
  \<open>clusterIssuerLister.Get(name)\<close>; the second one may be nil.
\<close>

record getterImpl =
  issuerLister :: "string \<Rightarrow> string \<Rightarrow> error + GenericIssuer"
  clusterIssuerLister :: "(string \<Rightarrow> error + GenericIssuer) option"

definition Issuer :: "getterImpl \<Rightarrow> ObjectReference \<Rightarrow> string \<Rightarrow> error + GenericIssuer" where
  "Issuer h ref ns =
     (if Kind ref = '''' \<or> Kind ref = IssuerKind then
        issuerLister h ns (Name ref)
      else if Kind ref = ClusterIssuerKind then
        (case clusterIssuerLister h of
           None \<Rightarrow>
             Inl (fmt_Errorf
               ''cannot get ClusterIssuer named %q as cert-manager is scoped to a single namespace''
               [Name ref])
         | Some lister \<Rightarrow> lister (Name ref))
      else
        Inl (fmt_Errorf ''invalid value %q for issuerRef.kind. Must be empty, %q or %q''
               [Kind ref, IssuerKind, ClusterIssuerKind]))"


section \<open>Approval gate (package subjectaccessreview)\<close>

subsection \<open>\<open>filepath.Join\<close> of the Go standard library, with \<open>/\<close> as separator\<close>

text \<open>Path elements: the pieces between separators (\<open>n\<close> separators give \<open>n + 1\<close> pieces).\<close>

fun splitSep :: "string \<Rightarrow> string list" where
  "splitSep [] = [[]]"
| "splitSep (c # cs) =
     (if c = CHR ''/'' then [] # splitSep cs
      else (case splitSep cs of
              [] \<Rightarrow> [[c]]
            | e # es \<Rightarrow> (c # e) # es))"

fun joinSep :: "string list \<Rightarrow> string" where
  "joinSep [] = []"
| "joinSep [e] = e"
| "joinSep (e # es) = e @ ''/'' @ joinSep es"

text \<open>
  One step of \<open>filepath.Clean\<close> on the element \<open>e\<close>; \<open>out\<close> is the output so far, last
  element first.  An empty element and \<open>.\<close> are skipped; \<open>..\<close> removes the last real
  element, is dropped at the root and is kept at the front of a relative path; anything
  else is appended.
\<close>

definition cleanStep :: "bool \<Rightarrow> string list \<Rightarrow> string \<Rightarrow> string list" where
  "cleanStep rooted out e =
     (if e = '''' \<or> e = ''.'' then out
      else if e = ''..'' then
        (case out of
           [] \<Rightarrow> (if rooted then [] else [''..''])
         | x # xs \<Rightarrow> (if x = ''..'' then (if rooted then out else ''..'' # out) else xs))
      else e # out)"

definition Clean :: "string \<Rightarrow> string" where
  "Clean path =
     (if path = [] then ''.''
      else
        (let rooted = (hd path = CHR ''/'');
             out = rev (foldl (cleanStep rooted) [] (splitSep path));
             res = (if rooted then ''/'' else '''') @ joinSep out
         in if res = [] then ''.'' else res))"

text \<open>\<open>filepath.Join\<close>: leading empty elements are ignored, the rest is joined and cleaned.\<close>

definition filepath_Join :: "string list \<Rightarrow> string" where
  "filepath_Join elem =
     (case dropWhile (\<lambda>e. e = '''') elem of
        [] \<Rightarrow> ''''
      | es \<Rightarrow> Clean (joinSep es))"

subsection \<open>The access review\<close>

record UserInfo =
  Username :: string
  UID :: string
  Groups :: "string list"
  Extra :: "string \<rightharpoonup> string list"

record ResourceAttributes =
  ra_Group :: string
  ra_Resource :: string
  ra_Name :: string
  ra_Namespace :: string
  ra_Verb :: string

record SubjectAccessReviewSpec =
  sar_User :: string
  sar_Groups :: "string list"
  sar_Extra :: "string \<rightharpoonup> string list"
  sar_UID :: string
  sar_ResourceAttributes :: ResourceAttributes

text \<open>
  The access-check collaborator \<open>sarclient.Create\<close>: an error, or the response's
  \<open>Status.Allowed\<close>.
\<close>

type_synonym sarclient = "SubjectAccessReviewSpec \<Rightarrow> error + bool"

text \<open>Modelled from the spec: the API group constant \<open>certmanager.GroupName\<close>.\<close>

definition GroupName :: string where
  "GroupName = ''cert-manager.io''"

datatype field_Error =
    InternalError string error
  | Forbidden string string

text \<open>
  \<open>reviewRequest\<close> returns the access checks it issued (the calls to the collaborator, in
  order) with its two Go results.
\<close>

definition reviewRequest ::
  "sarclient \<Rightarrow> UserInfo \<Rightarrow> CertificateRequest \<Rightarrow> string
     \<Rightarrow> SubjectAccessReviewSpec list \<times> bool \<times> error option" where
  "reviewRequest a req cr verb =
     (let extra = Extra req;
          sar = \<lparr>sar_User = Username req,
                 sar_Groups = Groups req,
                 sar_Extra = extra,
                 sar_UID = UID req,
                 sar_ResourceAttributes =
                   \<lparr>ra_Group = GroupName,
                    ra_Resource = ''signers'',
                    ra_Name = filepath_Join [Group (IssuerRef (Spec cr)), Kind (IssuerRef (Spec cr))],
                    ra_Namespace = Namespace cr,
                    ra_Verb = verb\<rparr>\<rparr>
      in case a sar of
           Inl err \<Rightarrow> ([sar], False, Some err)
         | Inr allowed \<Rightarrow> ([sar], allowed, None))"

definition Review ::
  "sarclient \<Rightarrow> UserInfo \<Rightarrow> CertificateRequest \<Rightarrow> CertificateRequest
     \<Rightarrow> SubjectAccessReviewSpec list \<times> field_Error list" where
  "Review a req oldCR newCR =
     (let (calls, ok, err) =
            (if GetCertificateRequestCondition (Conditions (Status oldCR)) CertificateRequestConditionApproved
                \<noteq> GetCertificateRequestCondition (Conditions (Status newCR)) CertificateRequestConditionApproved
             then reviewRequest a req newCR ''approve''
             else if GetCertificateRequestCondition (Conditions (Status oldCR)) CertificateRequestConditionDenied
                \<noteq> GetCertificateRequestCondition (Conditions (Status newCR)) CertificateRequestConditionDenied
             then reviewRequest a req newCR ''deny''
             else ([], True, None))
      in (calls,
          case err of
            Some e \<Rightarrow> [InternalError ''status.conditions'' e]
          | None \<Rightarrow>
              (if \<not> ok then
                 [Forbidden ''status.conditions''
                    ''user does not have permissions to set approved/deny conditions'']
               else [])))"


section \<open>Reconciliation engine (package certificaterequests, \<open>Sync\<close>)\<close>

subsection \<open>Parsed X.509 material and collaborators\<close>

type_synonym URL = string
type_synonym IP = "nat list"

record x509_CertificateRequest =
  csr_Subject_CommonName :: string
  csr_DNSNames :: "string list"
  csr_URIs :: "URL list"
  csr_IPAddresses :: "IP list"

record x509_Certificate =
  SerialNumber :: int
  Subject_CommonName :: string
  DNSNames :: "string list"
  URIs :: "URL list"
  IPAddresses :: "IP list"
  cert_NotAfter :: time

record IssueResponse =
  resp_Certificate :: bytes
  resp_CA :: bytes

text \<open>
  A signing backend (\<open>issuer.Interface\<close>): \<open>Sign\<close> gives an error, no response (nil) or a
  response.
\<close>

type_synonym issuer_Interface = "CertificateRequest \<Rightarrow> error + IssueResponse option"

text \<open>
  What one round of \<open>Sync\<close> is given from outside the file: the standard library's PEM and
  X.509 parsers, the validation package, the issuer helper and factory, the two clocks
  (the controller's and the one of the condition helper), the store's \<open>Update\<close>, and the
  helpers of the pki package and of \<open>fmt\<close> and \<open>time\<close> that build the expected names and
  the messages.  \<open>pem_Decode\<close> gives the bytes of the first block, \<open>None\<close> for a nil block.
\<close>

record Env =
  pem_Decode :: "bytes \<Rightarrow> bytes option"
  ParseCertificateRequest :: "bytes \<Rightarrow> error + x509_CertificateRequest"
  ParseCertificate :: "bytes \<Rightarrow> error + x509_Certificate"
  ValidateCertificateRequest :: "CertificateRequest \<Rightarrow> string list"
  GetGenericIssuer :: "ObjectReference \<Rightarrow> string \<Rightarrow> error + GenericIssuer"
  ValidateCertificateRequestForIssuer :: "CertificateRequest \<Rightarrow> GenericIssuer \<Rightarrow> string list"
  IssuerFor :: "GenericIssuer \<Rightarrow> error + issuer_Interface"
  clock_Now :: time
  apiutil_Clock_Now :: time
  Update :: "CertificateRequest \<Rightarrow> error option"
  CommonNameForCertificateRequest :: "x509_CertificateRequest \<Rightarrow> string"
  DNSNamesForCertificateRequest :: "x509_CertificateRequest \<Rightarrow> string list"
  URLsToString :: "URL list \<Rightarrow> string list"
  IPAddressesToString :: "IP list \<Rightarrow> string list"
  quote :: "string \<Rightarrow> string"
  quoteSlice :: "string list \<Rightarrow> string"
  Format_RFC822 :: "time \<Rightarrow> string"

text \<open>
  What a round does to the outside: calls of the backend's \<open>Sign\<close> and of the store's
  \<open>Update\<close> with the object passed, and the events recorded (type and reason; the message
  text is left out).
\<close>

datatype effect =
    SignCall CertificateRequest
  | UpdateCall CertificateRequest
  | RecorderEvent string string

fun isSignCall :: "effect \<Rightarrow> bool" where
  "isSignCall (SignCall cr) = True"
| "isSignCall e = False"

fun isUpdateCall :: "effect \<Rightarrow> bool" where
  "isUpdateCall (UpdateCall cr) = True"
| "isUpdateCall e = False"

definition errorIssuerNotFound :: string where
  "errorIssuerNotFound = ''IssuerNotFound''"

definition errorIssuerNotReady :: string where
  "errorIssuerNotReady = ''IssuerNotReady''"

definition errorIssuerInit :: string where
  "errorIssuerInit = ''IssuerInitError''"

definition errorCertificateSigningRequestNotFound :: string where
  "errorCertificateSigningRequestNotFound = ''CSRNotFound''"

definition errorCertificateSigningRequestParse :: string where
  "errorCertificateSigningRequestParse = ''CSRParseError''"

definition errorCertificateNotFound :: string where
  "errorCertificateNotFound = ''CertNotFound''"

definition errorCertificateParse :: string where
  "errorCertificateParse = ''CertParseError''"

definition successCertificateIssued :: string where
  "successCertificateIssued = ''CertIssued''"

definition staticTemporarySerialNumber :: int where
  "staticTemporarySerialNumber = 0x1234567890"

text \<open>Modelled from the spec: the issuer condition type \<open>IssuerConditionReady\<close>.\<close>

definition IssuerConditionReady :: string where
  "IssuerConditionReady = ''Ready''"

subsection \<open>Helpers of the repository that the sources only call\<close>

text \<open>
  Modelled from the spec: \<open>apiutil.SetCertificateRequestCondition\<close> (section 4.3, "find
  existing condition of type; if absent, append a new one with current timestamp; if
  present and status differs, update status + timestamp; always refresh
  reason/message").  \<open>setCondition\<close> is its loop over the conditions; the new condition
  comes with the current time.
\<close>

fun setCondition ::
  "CertificateRequestCondition list \<Rightarrow> CertificateRequestCondition
     \<Rightarrow> CertificateRequestCondition list" where
  "setCondition [] newCondition = [newCondition]"
| "setCondition (cond # conds) newCondition =
     (if Type cond \<noteq> Type newCondition then cond # setCondition conds newCondition
      else if ConditionStatus cond = ConditionStatus newCondition then
        newCondition\<lparr>LastTransitionTime := LastTransitionTime cond\<rparr> # conds
      else newCondition # conds)"

definition SetCertificateRequestCondition ::
  "time \<Rightarrow> CertificateRequest \<Rightarrow> string \<Rightarrow> string \<Rightarrow> string \<Rightarrow> string \<Rightarrow> CertificateRequest" where
  "SetCertificateRequestCondition now cr conditionType status reason message =
     cr\<lparr>Status := (Status cr)\<lparr>Conditions :=
          setCondition (Conditions (Status cr))
            \<lparr>Type = conditionType, ConditionStatus = status, Reason = reason,
             Message = message, LastTransitionTime = Some now\<rparr>\<rparr>\<rparr>"

text \<open>
  Modelled from the spec: \<open>apiutil.IssuerHasCondition\<close> (section 4.3, "an exact structural
  match on Type+Status only (reason/message ignored)").
\<close>

definition IssuerHasCondition :: "GenericIssuer \<Rightarrow> string \<Rightarrow> string \<Rightarrow> bool" where
  "IssuerHasCondition i t s =
     list_ex (\<lambda>c. ic_Type c = t \<and> ic_Status c = s) (issuer_Conditions i)"

text \<open>
  Modelled from the spec: \<open>util.EqualUnsorted\<close> (section 4.2, "order-independent
  equality" of two string slices).
\<close>

definition EqualUnsorted :: "string list \<Rightarrow> string list \<Rightarrow> bool" where
  "EqualUnsorted s1 s2 = (mset s1 = mset s2)"

text \<open>\<open>strings.Join\<close> of the Go standard library.\<close>

fun strings_Join :: "string list \<Rightarrow> string \<Rightarrow> string" where
  "strings_Join [] sep = []"
| "strings_Join [e] sep = e"
| "strings_Join (e # es) sep = e @ sep @ strings_Join es sep"

subsection \<open>The controller\<close>

text \<open>
  \<open>big.Int.Int64\<close>: the low 64 bits of the serial number, read as two's complement.  A
  nil certificate is \<open>None\<close>.
\<close>

definition isTemporaryCertificate :: "x509_Certificate option \<Rightarrow> bool" where
  "isTemporaryCertificate cert =
     (case cert of
        None \<Rightarrow> False
      | Some c \<Rightarrow> sint (word_of_int (SerialNumber c) :: 64 word) = staticTemporarySerialNumber)"

definition certificateMatchesSpec ::
  "Env \<Rightarrow> CertificateRequest \<Rightarrow> x509_CertificateRequest \<Rightarrow> x509_Certificate
     \<Rightarrow> bool \<times> string list" where
  "certificateMatchesSpec env cr csr cert =
     (let expectedCN = CommonNameForCertificateRequest env csr;
          errs1 = (if expectedCN \<noteq> Subject_CommonName cert then
                     [''Common name on TLS certificate not up to date: ''
                        @ quote env (Subject_CommonName cert)]
                   else []);
          expectedDNSNames = DNSNamesForCertificateRequest env csr;
          errs2 = (if \<not> EqualUnsorted (DNSNames cert) expectedDNSNames then
                     errs1 @ [''DNS names on TLS certificate not up to date: ''
                                @ quoteSlice env (DNSNames cert)]
                   else errs1);
          errs3 = (if \<not> EqualUnsorted (URLsToString env (URIs cert))
                                        (URLsToString env (csr_URIs csr)) then
                     errs2 @ [''URLs on TLS certificate not up to date: ''
                                @ quoteSlice env (URLsToString env (URIs cert))]
                   else errs2);
          errs = (if \<not> EqualUnsorted (IPAddressesToString env (IPAddresses cert))
                                       (IPAddressesToString env (csr_IPAddresses csr)) then
                    errs3 @ [''IP addresses on TLS certificate not up to date: ''
                               @ quoteSlice env (IPAddressesToString env (IPAddresses cert))]
                  else errs3)
      in (errs = [], errs))"

definition setCertificateRequestStatus ::
  "Env \<Rightarrow> CertificateRequest \<Rightarrow> x509_CertificateRequest \<Rightarrow> x509_Certificate option
     \<Rightarrow> CertificateRequest" where
  "setCertificateRequestStatus env cr csr cert =
     (case cert of
        None \<Rightarrow>
          SetCertificateRequestCondition (apiutil_Clock_Now env) cr
            CertificateRequestConditionReady ConditionFalse
            ''NotFound'' ''Certificate does not exist''
      | Some c \<Rightarrow>
          (let cr1 = cr\<lparr>Status := (Status cr)\<lparr>NotAfter := Some (cert_NotAfter c)\<rparr>\<rparr>;
               (matches, matchErrs) = certificateMatchesSpec env cr1 csr c
           in if isTemporaryCertificate cert then
                SetCertificateRequestCondition (apiutil_Clock_Now env)
                  (cr1\<lparr>Status := (Status cr1)\<lparr>NotAfter := None\<rparr>\<rparr>)
                  CertificateRequestConditionReady ConditionFalse
                  ''TemporaryCertificate''
                  ''Certificate issuance in progress. Temporary certificate issued.''
              else if cert_NotAfter c < clock_Now env then
                SetCertificateRequestCondition (apiutil_Clock_Now env) cr1
                  CertificateRequestConditionReady ConditionFalse
                  ''Expired''
                  (''Certificate has expired on '' @ Format_RFC822 env (cert_NotAfter c))
              else if \<not> matches then
                SetCertificateRequestCondition (apiutil_Clock_Now env) cr1
                  CertificateRequestConditionReady ConditionFalse
                  ''DoesNotMatch'' (strings_Join matchErrs '', '')
              else
                SetCertificateRequestCondition (apiutil_Clock_Now env) cr1
                  CertificateRequestConditionReady ConditionTrue
                  ''Ready'' ''Certificate is up to date and has not expired''))"

text \<open>
  The result of a round: the error returned, the working copy \<open>crCopy\<close> as the round
  left it, and the effects in order.
\<close>

record SyncResult =
  sync_err :: "error option"
  sync_crCopy :: CertificateRequest
  sync_effects :: "effect list"

definition sign :: "issuer_Interface \<Rightarrow> CertificateRequest \<Rightarrow> SyncResult" where
  "sign issuer cr =
     (case issuer cr of
        Inl err \<Rightarrow> \<lparr>sync_err = Some err, sync_crCopy = cr, sync_effects = [SignCall cr]\<rparr>
      | Inr None \<Rightarrow> \<lparr>sync_err = None, sync_crCopy = cr, sync_effects = [SignCall cr]\<rparr>
      | Inr (Some resp) \<Rightarrow>
          (if length (resp_Certificate resp) > 0 then
             \<lparr>sync_err = None,
              sync_crCopy = cr\<lparr>Status := (Status cr)\<lparr>Certificate := resp_Certificate resp,
                                                       CA := resp_CA resp\<rparr>\<rparr>,
              sync_effects = [SignCall cr, RecorderEvent ''Normal'' successCertificateIssued]\<rparr>
           else \<lparr>sync_err = None, sync_crCopy = cr, sync_effects = [SignCall cr]\<rparr>))"

text \<open>
  \<open>updateCertificateStatus\<close>: the two statuses are serialised and the bytes compared; the
  model compares the statuses themselves, taking the serialisation to be injective on
  them.  The object that \<open>Update\<close> returns is not used by \<open>Sync\<close>, so only the error is
  kept.
\<close>

definition updateCertificateStatus ::
  "Env \<Rightarrow> CertificateRequest \<Rightarrow> CertificateRequest \<Rightarrow> error option \<times> effect list" where
  "updateCertificateStatus env old new =
     (if Status old = Status new then (None, [])
      else (Update env new, [UpdateCall new]))"

text \<open>The body of \<open>Sync\<close>, from the first check to the last \<open>return\<close> (lines 82 to 178).\<close>

definition syncBody :: "Env \<Rightarrow> CertificateRequest \<Rightarrow> CertificateRequest \<Rightarrow> SyncResult" where
  "syncBody env cr crCopy =
     (if length (CSRPem (Spec cr)) = 0 then
        \<lparr>sync_err = Some (errors_New errorCertificateSigningRequestNotFound),
         sync_crCopy = crCopy, sync_effects = []\<rparr>
      else case pem_Decode env (CSRPem (Spec cr)) of
        None \<Rightarrow>
          \<lparr>sync_err = Some (errors_New errorCertificateSigningRequestParse),
           sync_crCopy = crCopy, sync_effects = []\<rparr>
      | Some block \<Rightarrow>
      (case ParseCertificateRequest env block of
        Inl err \<Rightarrow> \<lparr>sync_err = Some err, sync_crCopy = crCopy, sync_effects = []\<rparr>
      | Inr csr \<Rightarrow>
      (if length (Certificate (Status cr)) = 0 then
        \<lparr>sync_err = Some (errors_New errorCertificateNotFound),
         sync_crCopy = crCopy, sync_effects = []\<rparr>
      else case pem_Decode env (Certificate (Status cr)) of
        None \<Rightarrow>
          \<lparr>sync_err = Some (errors_New errorCertificateParse),
           sync_crCopy = crCopy, sync_effects = []\<rparr>
      | Some block \<Rightarrow>
      (case ParseCertificate env block of
        Inl err \<Rightarrow> \<lparr>sync_err = Some err, sync_crCopy = crCopy, sync_effects = []\<rparr>
      | Inr c \<Rightarrow>
      (let cert = Some c;
           crCopy = setCertificateRequestStatus env crCopy csr cert
       in if length (ValidateCertificateRequest env crCopy) > 0 then
            \<lparr>sync_err = None, sync_crCopy = crCopy,
             sync_effects = [RecorderEvent ''Warning'' ''BadConfig'']\<rparr>
          else case GetGenericIssuer env (IssuerRef (Spec crCopy)) (Namespace crCopy) of
            Inl err \<Rightarrow>
              (if IsNotFound err then
                 \<lparr>sync_err = None, sync_crCopy = crCopy,
                  sync_effects = [RecorderEvent ''Warning'' errorIssuerNotFound]\<rparr>
               else \<lparr>sync_err = Some err, sync_crCopy = crCopy, sync_effects = []\<rparr>)
          | Inr issuerObj \<Rightarrow>
          (if length (ValidateCertificateRequestForIssuer env crCopy issuerObj) > 0 then
             \<lparr>sync_err = None, sync_crCopy = crCopy,
              sync_effects = [RecorderEvent ''Warning'' ''BadConfig'']\<rparr>
           else if \<not> IssuerHasCondition issuerObj IssuerConditionReady ConditionTrue then
             \<lparr>sync_err = None, sync_crCopy = crCopy,
              sync_effects = [RecorderEvent ''Warning'' errorIssuerNotReady]\<rparr>
           else case IssuerFor env issuerObj of
             Inl err \<Rightarrow>
               \<lparr>sync_err = None, sync_crCopy = crCopy,
                sync_effects = [RecorderEvent ''Warning'' errorIssuerInit]\<rparr>
           | Inr i \<Rightarrow>
           (if isTemporaryCertificate cert then sign i crCopy
            else if cert = None then sign i crCopy
            else let (matches, matchErrs) = certificateMatchesSpec env crCopy csr c
                 in if \<not> matches then sign i crCopy
                    else \<lparr>sync_err = None, sync_crCopy = crCopy, sync_effects = []\<rparr>)))))))"

text \<open>
  \<open>Sync\<close>: the working copy is taken, the body runs, and the deferred function persists
  the status and folds a persistence error into the error returned.
\<close>

definition Sync :: "Env \<Rightarrow> CertificateRequest \<Rightarrow> SyncResult" where
  "Sync env cr =
     (let crCopy = cr;
          r = syncBody env cr crCopy;
          (saveErr, saved) = updateCertificateStatus env cr (sync_crCopy r)
      in \<lparr>sync_err = (if saveErr \<noteq> None then NewAggregate [saveErr, sync_err r]
                       else sync_err r),
          sync_crCopy = sync_crCopy r,
          sync_effects = sync_effects r @ saved\<rparr>)"

definition signCalls :: "SyncResult \<Rightarrow> effect list" where
  "signCalls r = filter isSignCall (sync_effects r)"

definition updateCalls :: "SyncResult \<Rightarrow> effect list" where
  "updateCalls r = filter isUpdateCall (sync_effects r)"

section \<open>Vocabulary of the properties\<close>

text \<open>
  \<open>parsesTo env cr csr c\<close>: the first steps of \<open>Sync\<close> succeed on \<open>cr\<close>, the request's
  \<open>Spec.CSRPem\<close> decoding to \<open>csr\<close> and its \<open>Status.Certificate\<close> to \<open>c\<close>.
\<close>

definition parsesTo ::
  "Env \<Rightarrow> CertificateRequest \<Rightarrow> x509_CertificateRequest \<Rightarrow> x509_Certificate \<Rightarrow> bool" where
  "parsesTo env cr csr c =
     (CSRPem (Spec cr) \<noteq> []
      \<and> (case pem_Decode env (CSRPem (Spec cr)) of
           None \<Rightarrow> False
         | Some block \<Rightarrow> ParseCertificateRequest env block = Inr csr)
      \<and> Certificate (Status cr) \<noteq> []
      \<and> (case pem_Decode env (Certificate (Status cr)) of
           None \<Rightarrow> False
         | Some block \<Rightarrow> ParseCertificate env block = Inr c))"

text \<open>
  \<open>resolvedBackend env crCopy\<close>: the backend that the round reaches the signing decision
  with (lines 119 to 157 of \<open>Sync\<close>: both validations pass, the issuer is found and Ready,
  the factory builds its backend), \<open>None\<close> when one of these steps ends the round.
\<close>

definition resolvedBackend ::
  "Env \<Rightarrow> CertificateRequest \<Rightarrow> issuer_Interface option" where
  "resolvedBackend env crCopy =
     (if ValidateCertificateRequest env crCopy \<noteq> [] then None
      else case GetGenericIssuer env (IssuerRef (Spec crCopy)) (Namespace crCopy) of
        Inl err \<Rightarrow> None
      | Inr issuerObj \<Rightarrow>
          (if ValidateCertificateRequestForIssuer env crCopy issuerObj \<noteq> [] then None
           else if \<not> IssuerHasCondition issuerObj IssuerConditionReady ConditionTrue then None
           else case IssuerFor env issuerObj of
             Inl err \<Rightarrow> None
           | Inr i \<Rightarrow> Some i))"

text \<open>The Ready condition of a status, as (status, reason).\<close>

definition readyCondition :: "CertificateRequest \<Rightarrow> (string \<times> string) option" where
  "readyCondition cr =
     map_option (\<lambda>c. (ConditionStatus c, Reason c))
       (GetCertificateRequestCondition (Conditions (Status cr)) CertificateRequestConditionReady)"

text \<open>
  A path element that \<open>filepath.Clean\<close> leaves alone: not empty, without separator, and
  neither \<open>.\<close> nor \<open>..\<close>.
\<close>

definition cleanElem :: "string \<Rightarrow> bool" where
  "cleanElem e = (e \<noteq> '''' \<and> CHR ''/'' \<notin> set e \<and> e \<noteq> ''.'' \<and> e \<noteq> ''..'')"

definition resourceNames :: "SubjectAccessReviewSpec list \<Rightarrow> string list" where
  "resourceNames calls = map (\<lambda>s. ra_Name (sar_ResourceAttributes s)) calls"

definition verbs :: "SubjectAccessReviewSpec list \<Rightarrow> string list" where
  "verbs calls = map (\<lambda>s. ra_Verb (sar_ResourceAttributes s)) calls"


section \<open>A test fixture\<close>

text \<open>
  The fixture of the package's tests (\<open>controllerFixture\<close> in util_test.go):
  \<open>GetGenericIssuer\<close> gives the fixture's issuer and \<open>IssuerFor\<close> its backend, both
  validations pass, and the condition helper shares the controller's fake clock.  The PEM
  and X.509 parsers are tables of the blocks and structures known to the fixture, and the
  expected names are the CSR's own.
\<close>

definition controllerFixture ::
  "(bytes \<Rightarrow> bytes option) \<Rightarrow> (bytes \<Rightarrow> x509_CertificateRequest option)
     \<Rightarrow> (bytes \<Rightarrow> x509_Certificate option) \<Rightarrow> GenericIssuer \<Rightarrow> issuer_Interface
     \<Rightarrow> time \<Rightarrow> (CertificateRequest \<Rightarrow> error option) \<Rightarrow> Env" where
  "controllerFixture blocks csrs certs issuerObj issuerImpl clk upd =
     \<lparr>pem_Decode = blocks,
      ParseCertificateRequest =
        (\<lambda>der. case csrs der of
                  None \<Rightarrow> Inl (OtherError ''asn1: structure error'')
                | Some csr \<Rightarrow> Inr csr),
      ParseCertificate =
        (\<lambda>der. case certs der of
                  None \<Rightarrow> Inl (OtherError ''asn1: structure error'')
                | Some c \<Rightarrow> Inr c),
      ValidateCertificateRequest = (\<lambda>cr. []),
      GetGenericIssuer = (\<lambda>ref ns. Inr issuerObj),
      ValidateCertificateRequestForIssuer = (\<lambda>cr i. []),
      IssuerFor = (\<lambda>i. Inr issuerImpl),
      clock_Now = clk,
      apiutil_Clock_Now = clk,
      Update = upd,
      CommonNameForCertificateRequest = csr_Subject_CommonName,
      DNSNamesForCertificateRequest = csr_DNSNames,
      URLsToString = (\<lambda>us. us),
      IPAddressesToString = map (map char_of),
      quote = (\<lambda>s. ''<'' @ s @ ''>''),
      quoteSlice = (\<lambda>ss. ''['' @ concat (map (\<lambda>s. ''<'' @ s @ ''>'') ss) @ '']''),
      Format_RFC822 = (\<lambda>t. ''(time)'')\<rparr>"

definition nowTime :: time where
  "nowTime = 1000000"

definition csr1 :: x509_CertificateRequest where
  "csr1 = \<lparr>csr_Subject_CommonName = ''csr1'', csr_DNSNames = [],
           csr_URIs = [''http://example.com''], csr_IPAddresses = [[8, 8, 8, 8]]\<rparr>"

definition csrNoCN :: x509_CertificateRequest where
  "csrNoCN = \<lparr>csr_Subject_CommonName = '''', csr_DNSNames = [''a.com''],
              csr_URIs = [], csr_IPAddresses = []\<rparr>"

definition cert1 :: x509_Certificate where
  "cert1 = \<lparr>SerialNumber = 1, Subject_CommonName = ''csr1'', DNSNames = [],
            URIs = [''http://example.com''], IPAddresses = [[8, 8, 8, 8]],
            cert_NotAfter = 1000000 + 43200\<rparr>"

definition certExpired :: x509_Certificate where
  "certExpired = cert1\<lparr>cert_NotAfter := 1000000 - 43200\<rparr>"

definition certTemporary :: x509_Certificate where
  "certTemporary = cert1\<lparr>SerialNumber := 0x1234567890\<rparr>"

definition certExpiredTemporary :: x509_Certificate where
  "certExpiredTemporary = certExpired\<lparr>SerialNumber := 0x1234567890\<rparr>"

definition certSynthesizedCN :: x509_Certificate where
  "certSynthesizedCN = \<lparr>SerialNumber = 2, Subject_CommonName = ''a.com'', DNSNames = [''a.com''],
            URIs = [], IPAddresses = [], cert_NotAfter = 1000000 + 43200\<rparr>"

definition certSynthesizedOtherCN :: x509_Certificate where
  "certSynthesizedOtherCN = \<lparr>SerialNumber = 3, Subject_CommonName = ''b.com'',
            DNSNames = [''b.com''], URIs = [], IPAddresses = [],
            cert_NotAfter = 1000000 + 43200\<rparr>"

definition testBlocks :: "bytes \<Rightarrow> bytes option" where
  "testBlocks pem =
     (if pem = ''csr1.pem'' then Some ''csr1.der''
      else if pem = ''cert1.pem'' then Some ''cert1.der''
      else if pem = ''expired.pem'' then Some ''expired.der''
      else if pem = ''temporary.pem'' then Some ''temporary.der''
      else if pem = ''junk.pem'' then Some ''junk.der''
      else if pem = ''expired-temporary.pem'' then Some ''expired-temporary.der''
      else None)"

definition testCSRs :: "bytes \<Rightarrow> x509_CertificateRequest option" where
  "testCSRs der = (if der = ''csr1.der'' then Some csr1 else None)"

definition testCerts :: "bytes \<Rightarrow> x509_Certificate option" where
  "testCerts der =
     (if der = ''cert1.der'' then Some cert1
      else if der = ''expired.der'' then Some certExpired
      else if der = ''temporary.der'' then Some certTemporary
      else if der = ''expired-temporary.der'' then Some certExpiredTemporary
      else None)"

definition readyIssuer :: GenericIssuer where
  "readyIssuer = \<lparr>issuer_Name = ''test'', issuer_Namespace = ''default-unit-test-ns'',
                  issuer_Conditions = [\<lparr>ic_Type = ''Ready'', ic_Status = ''True'',
                                        ic_Reason = '''', ic_Message = ''''\<rparr>]\<rparr>"

definition notReadyIssuer :: GenericIssuer where
  "notReadyIssuer = readyIssuer\<lparr>issuer_Conditions := []\<rparr>"

definition signsCert1 :: issuer_Interface where
  "signsCert1 cr = Inr (Some \<lparr>resp_Certificate = ''cert1.pem'', resp_CA = ''ca.pem''\<rparr>)"

definition signFails :: issuer_Interface where
  "signFails cr = Inl (OtherError ''unexpected sign call'')"

definition updateOK :: "CertificateRequest \<Rightarrow> error option" where
  "updateOK cr = None"

definition updateConflict :: "CertificateRequest \<Rightarrow> error option" where
  "updateConflict cr = Some (OtherError ''conflict'')"

definition testEnv :: "GenericIssuer \<Rightarrow> issuer_Interface \<Rightarrow> (CertificateRequest \<Rightarrow> error option) \<Rightarrow> Env" where
  "testEnv issuerObj issuerImpl upd =
     controllerFixture testBlocks testCSRs testCerts issuerObj issuerImpl nowTime upd"

definition exampleCR :: CertificateRequest where
  "exampleCR =
     \<lparr>ObjectMeta_Name = ''test'', Namespace = ''default-unit-test-ns'',
      Spec = \<lparr>IssuerRef = \<lparr>Name = ''test'', Kind = '''', Group = ''''\<rparr>, CSRPem = ''csr1.pem''\<rparr>,
      Status = \<lparr>Conditions = [], Certificate = [], CA = [], NotAfter = None\<rparr>\<rparr>"

definition withCertificate :: "bytes \<Rightarrow> CertificateRequest \<Rightarrow> CertificateRequest" where
  "withCertificate pem cr = cr\<lparr>Status := (Status cr)\<lparr>Certificate := pem\<rparr>\<rparr>"

definition withCSRPem :: "bytes \<Rightarrow> CertificateRequest \<Rightarrow> CertificateRequest" where
  "withCSRPem pem cr = cr\<lparr>Spec := (Spec cr)\<lparr>CSRPem := pem\<rparr>\<rparr>"

definition readyTrue :: CertificateRequestCondition where
  "readyTrue = \<lparr>Type = ''Ready'', ConditionStatus = ''True'', Reason = ''Ready'',
                Message = ''Certificate is up to date and has not expired'',
                LastTransitionTime = Some 999000\<rparr>"


definition withIssuerRef :: "string \<Rightarrow> string \<Rightarrow> CertificateRequest \<Rightarrow> CertificateRequest" where
  "withIssuerRef g k cr = cr\<lparr>Spec := (Spec cr)\<lparr>IssuerRef := \<lparr>Name = ''test'', Kind = k, Group = g\<rparr>\<rparr>\<rparr>"

definition withConditions ::
  "CertificateRequestCondition list \<Rightarrow> CertificateRequest \<Rightarrow> CertificateRequest" where
  "withConditions cs cr = cr\<lparr>Status := (Status cr)\<lparr>Conditions := cs\<rparr>\<rparr>"

definition approvedTrue :: CertificateRequestCondition where
  "approvedTrue = \<lparr>Type = ''Approved'', ConditionStatus = ''True'', Reason = ''policy'',
                   Message = ''approved'', LastTransitionTime = Some 999000\<rparr>"


definition testUser :: UserInfo where
  "testUser = \<lparr>Username = ''alice'', UID = ''1234'', Groups = [''dev''], Extra = Map.empty\<rparr>"

definition denyAll :: sarclient where
  "denyAll sar = Inr False"

definition exampleGetter :: getterImpl where
  "exampleGetter =
     \<lparr>issuerLister = (\<lambda>ns name. if ns = ''ns1'' \<and> name = ''test'' then Inr readyIssuer
                                 else Inl (StatusNotFound name)),
      clusterIssuerLister = Some (\<lambda>name. if name = ''global'' then Inr notReadyIssuer
                                          else Inl (StatusNotFound name))\<rparr>"

definition namespacedGetter :: getterImpl where
  "namespacedGetter = exampleGetter\<lparr>clusterIssuerLister := None\<rparr>"


section \<open>Auxiliary facts\<close>

subsection \<open>Paths\<close>

lemma splitSep_noSep: "CHR ''/'' \<notin> set e \<Longrightarrow> splitSep e = [e]"
  by (induction e) auto

lemma splitSep_append:
  "CHR ''/'' \<notin> set g \<Longrightarrow> splitSep (g @ CHR ''/'' # k) = g # splitSep k"
  by (induction g) auto

lemma filepath_Join_clean:
  assumes "cleanElem g" and "cleanElem k"
  shows "filepath_Join [g, k] = g @ ''/'' @ k"
proof -
  from assms have g: "g \<noteq> []" "CHR ''/'' \<notin> set g" "g \<noteq> ''.''" "g \<noteq> ''..''"
    and k: "k \<noteq> []" "CHR ''/'' \<notin> set k" "k \<noteq> ''.''" "k \<noteq> ''..''"
    by (simp_all add: cleanElem_def)
  have pieces: "splitSep (g @ CHR ''/'' # k) = [g, k]"
    using g k by (simp add: splitSep_append splitSep_noSep)
  have relative: "hd (g @ CHR ''/'' # k) \<noteq> CHR ''/''"
    using g by (cases g) auto
  show ?thesis
    using g k pieces relative
    by (simp add: filepath_Join_def Clean_def cleanStep_def Let_def)
qed

lemma filepath_Join_empty_group:
  assumes "cleanElem k"
  shows "filepath_Join ['''', k] = k"
proof -
  from assms have k: "k \<noteq> []" "CHR ''/'' \<notin> set k" "k \<noteq> ''.''" "k \<noteq> ''..''"
    by (simp_all add: cleanElem_def)
  have relative: "hd k \<noteq> CHR ''/''"
    using k by (cases k) auto
  show ?thesis
    using k relative
    by (simp add: filepath_Join_def Clean_def cleanStep_def Let_def splitSep_noSep)
qed

subsection \<open>Conditions\<close>

lemma setCondition_get:
  "map_option (\<lambda>c. (ConditionStatus c, Reason c, Message c))
     (GetCertificateRequestCondition (setCondition conds n) (Type n))
   = Some (ConditionStatus n, Reason n, Message n)"
  by (induction conds) auto


lemma readyCondition_Set:
  "readyCondition (SetCertificateRequestCondition now cr CertificateRequestConditionReady s r m)
   = Some (s, r)"
proof -
  let ?n = "\<lparr>Type = CertificateRequestConditionReady, ConditionStatus = s, Reason = r,
             Message = m, LastTransitionTime = Some now\<rparr>"
  from setCondition_get [of "Conditions (Status cr)" ?n]
  show ?thesis
    by (auto simp add: readyCondition_def SetCertificateRequestCondition_def)
qed

subsection \<open>The steps of a round\<close>

lemma sign_signCalls: "filter isSignCall (sync_effects (sign i cr)) = [SignCall cr]"
  by (simp add: sign_def split: sum.splits option.splits)

lemma sign_no_update: "filter isUpdateCall (sync_effects (sign i cr)) = []"
  by (simp add: sign_def split: sum.splits option.splits)

lemma sign_NotAfter: "NotAfter (Status (sync_crCopy (sign i cr))) = NotAfter (Status cr)"
  by (simp add: sign_def split: sum.splits option.splits)

lemma sign_readyCondition: "readyCondition (sync_crCopy (sign i cr)) = readyCondition cr"
  by (simp add: sign_def readyCondition_def split: sum.splits option.splits)

lemma certificateMatchesSpec_cr:
  "certificateMatchesSpec env cr csr c = certificateMatchesSpec env cr' csr c"
  by (simp add: certificateMatchesSpec_def)

lemma setCertificateRequestStatus_temporary:
  assumes "isTemporaryCertificate (Some c)"
  shows "setCertificateRequestStatus env cr csr (Some c) =
           SetCertificateRequestCondition (apiutil_Clock_Now env)
             (cr\<lparr>Status := (Status cr)\<lparr>NotAfter := None\<rparr>\<rparr>)
             CertificateRequestConditionReady ConditionFalse ''TemporaryCertificate''
             ''Certificate issuance in progress. Temporary certificate issued.''"
  using assms by (simp add: setCertificateRequestStatus_def Let_def case_prod_beta)

lemma setCertificateRequestStatus_expired:
  assumes "\<not> isTemporaryCertificate (Some c)" and "cert_NotAfter c < clock_Now env"
  shows "setCertificateRequestStatus env cr csr (Some c) =
           SetCertificateRequestCondition (apiutil_Clock_Now env)
             (cr\<lparr>Status := (Status cr)\<lparr>NotAfter := Some (cert_NotAfter c)\<rparr>\<rparr>)
             CertificateRequestConditionReady ConditionFalse ''Expired''
             (''Certificate has expired on '' @ Format_RFC822 env (cert_NotAfter c))"
  using assms by (simp add: setCertificateRequestStatus_def Let_def case_prod_beta)


lemma syncBody_parsed:
  assumes "parsesTo env cr csr c"
    and "resolvedBackend env (setCertificateRequestStatus env cr csr (Some c)) = Some i"
  shows "syncBody env cr cr =
    (let crCopy = setCertificateRequestStatus env cr csr (Some c) in
       if isTemporaryCertificate (Some c) then sign i crCopy
       else if \<not> fst (certificateMatchesSpec env crCopy csr c) then sign i crCopy
       else \<lparr>sync_err = None, sync_crCopy = crCopy, sync_effects = []\<rparr>)"
  using assms
  by (auto simp add: parsesTo_def syncBody_def resolvedBackend_def Let_def
       split: option.splits sum.splits prod.splits if_splits)

lemma syncBody_unresolved:
  assumes "parsesTo env cr csr c"
    and "resolvedBackend env (setCertificateRequestStatus env cr csr (Some c)) = None"
  shows "sync_crCopy (syncBody env cr cr) = setCertificateRequestStatus env cr csr (Some c)
       \<and> filter isSignCall (sync_effects (syncBody env cr cr)) = []"
  using assms
  by (auto simp add: parsesTo_def syncBody_def resolvedBackend_def Let_def
       split: option.splits sum.splits prod.splits if_splits)

lemma syncBody_no_update: "filter isUpdateCall (sync_effects (syncBody env cr crCopy)) = []"
  by (auto simp add: syncBody_def Let_def sign_no_update
       split: option.splits sum.splits prod.splits if_splits)

lemma Sync_crCopy: "sync_crCopy (Sync env cr) = sync_crCopy (syncBody env cr cr)"
  by (simp add: Sync_def Let_def split: prod.splits)

lemma Sync_signCalls:
  "signCalls (Sync env cr) = filter isSignCall (sync_effects (syncBody env cr cr))"
  by (auto simp add: Sync_def signCalls_def Let_def updateCertificateStatus_def
       split: prod.splits if_splits)

lemma Sync_updateCalls:
  "updateCalls (Sync env cr) =
     (if Status (sync_crCopy (Sync env cr)) = Status cr then []
      else [UpdateCall (sync_crCopy (Sync env cr))])"
  by (auto simp add: Sync_def updateCalls_def Let_def updateCertificateStatus_def
       syncBody_no_update split: prod.splits if_splits)

text \<open>Without a change of status, a round that parses both PEMs and needs no signing.\<close>

lemma Sync_matching:
  assumes "parsesTo env cr csr c" and "\<not> isTemporaryCertificate (Some c)"
    and "fst (certificateMatchesSpec env cr csr c)"
  shows "signCalls (Sync env cr) = []
       \<and> sync_crCopy (Sync env cr) = setCertificateRequestStatus env cr csr (Some c)"
proof (cases "resolvedBackend env (setCertificateRequestStatus env cr csr (Some c))")
  case None
  with assms(1) show ?thesis
    using syncBody_unresolved [of env cr csr c] by (simp add: Sync_signCalls Sync_crCopy)
next
  case (Some i)
  have "fst (certificateMatchesSpec env (setCertificateRequestStatus env cr csr (Some c)) csr c)"
    using assms(3) certificateMatchesSpec_cr by metis
  with assms(1,2) Some show ?thesis
    using syncBody_parsed [of env cr csr c i]
    by (simp add: Sync_signCalls Sync_crCopy Let_def)
qed

lemma Sync_CertNotFound:
  assumes "CSRPem (Spec cr) \<noteq> []"
    and "pem_Decode env (CSRPem (Spec cr)) = Some block"
    and "ParseCertificateRequest env block = Inr csr"
    and "Certificate (Status cr) = []"
  shows "Sync env cr = \<lparr>sync_err = Some (errors_New ''CertNotFound''),
                         sync_crCopy = cr, sync_effects = []\<rparr>"
  using assms
  by (simp add: Sync_def syncBody_def updateCertificateStatus_def Let_def
        errorCertificateNotFound_def)

subsection \<open>The fixture\<close>

lemma temporary_serial: "isTemporaryCertificate (Some certTemporary)"
  by (simp add: isTemporaryCertificate_def certTemporary_def cert1_def
        staticTemporarySerialNumber_def)


lemma certExpired_not_temporary: "\<not> isTemporaryCertificate (Some certExpired)"
  by (simp add: isTemporaryCertificate_def certExpired_def cert1_def
        staticTemporarySerialNumber_def)

lemmas fixture_defs =
  testEnv_def controllerFixture_def testBlocks_def testCSRs_def testCerts_def
  exampleCR_def withCertificate_def nowTime_def



lemma parsesTo_expired:
  "parsesTo (testEnv iss impl upd) (withCertificate ''expired.pem'' exampleCR) csr1 certExpired"
  by (simp add: parsesTo_def fixture_defs)

lemma parsesTo_temporary:
  "parsesTo (testEnv iss impl upd) (withCertificate ''temporary.pem'' exampleCR) csr1 certTemporary"
  by (simp add: parsesTo_def fixture_defs)


lemma matches_certExpired:
  "fst (certificateMatchesSpec (testEnv iss impl upd) cr csr1 certExpired)"
  by (simp add: certificateMatchesSpec_def fixture_defs csr1_def cert1_def certExpired_def
        EqualUnsorted_def)

lemma resolvedBackend_ready: "resolvedBackend (testEnv readyIssuer impl upd) cr = Some impl"
  by (simp add: resolvedBackend_def fixture_defs readyIssuer_def IssuerHasCondition_def
        IssuerConditionReady_def ConditionTrue_def)

lemma resolvedBackend_notReady: "resolvedBackend (testEnv notReadyIssuer impl upd) cr = None"
  by (simp add: resolvedBackend_def fixture_defs notReadyIssuer_def readyIssuer_def
        IssuerHasCondition_def)


section \<open>Properties of the reconciliation engine\<close>

text \<open>
  C1.  Claimed: for a request whose \<open>Status.Certificate\<close> is empty, a round that reaches the
  signing step calls the backend's \<open>Sign\<close> once and, on success, stores the certificate and
  the CA and sets Ready to True.  On the request of the package's own test ("should update
  the status with a freshly signed certificate only when one doesn't exist": valid CSR, no
  certificate, Ready issuer, a backend that signs) the round ends at the check of line 98
  with the error \<open>CertNotFound\<close>: \<open>Sign\<close> is not called, nothing is stored, and no update is
  sent.  The branch of line 164 that signs when there is no certificate is never reached.
\<close>

theorem Sync_no_certificate_never_signs:
  "Certificate (Status exampleCR) = []
   \<and> Sync (testEnv readyIssuer signsCert1 updateOK) exampleCR
       = \<lparr>sync_err = Some (errors_New ''CertNotFound''),
          sync_crCopy = exampleCR, sync_effects = []\<rparr>
   \<and> signCalls (Sync (testEnv readyIssuer signsCert1 updateOK) exampleCR) = []"
proof -
  have "Sync (testEnv readyIssuer signsCert1 updateOK) exampleCR
       = \<lparr>sync_err = Some (errors_New ''CertNotFound''),
          sync_crCopy = exampleCR, sync_effects = []\<rparr>"
    by (rule Sync_CertNotFound [where block = "''csr1.der''" and csr = csr1])
       (simp_all add: fixture_defs)
  then show ?thesis
    by (simp add: signCalls_def exampleCR_def)
qed

text \<open>
  C2, as claimed, fails: with an empty \<open>Spec.CSRPem\<close> the round returns the error
  \<open>CSRNotFound\<close> to the caller and leaves the status as it was.
\<close>

theorem Sync_empty_CSR_returns_error:
  "CSRPem (Spec (withCSRPem '''' exampleCR)) = []
   \<and> sync_err (Sync (testEnv readyIssuer signsCert1 updateOK) (withCSRPem '''' exampleCR))
       = Some (errors_New ''CSRNotFound'')
   \<and> sync_err (Sync (testEnv readyIssuer signsCert1 updateOK) (withCSRPem '''' exampleCR)) \<noteq> None
   \<and> Status (sync_crCopy (Sync (testEnv readyIssuer signsCert1 updateOK) (withCSRPem '''' exampleCR)))
       = Status (withCSRPem '''' exampleCR)"
  by (simp add: Sync_def syncBody_def updateCertificateStatus_def Let_def fixture_defs
        withCSRPem_def errorCertificateSigningRequestNotFound_def)

text \<open>
  C2, amended: when \<open>Spec.CSRPem\<close> is empty \<open>Sync\<close> returns the error \<open>CSRNotFound\<close>, when
  it holds no PEM block the error \<open>CSRParseError\<close>, and when the block is no CSR the
  parser's error; in each case the error goes to the caller, the status is unchanged, and
  the round has no effect (no event, no \<open>Sign\<close>, no \<open>Update\<close>).
\<close>

theorem Sync_CSR_failure:
  "(CSRPem (Spec cr) = [] \<longrightarrow>
      Sync env cr = \<lparr>sync_err = Some (errors_New ''CSRNotFound''),
                      sync_crCopy = cr, sync_effects = []\<rparr>)
   \<and> (CSRPem (Spec cr) \<noteq> [] \<and> pem_Decode env (CSRPem (Spec cr)) = None \<longrightarrow>
      Sync env cr = \<lparr>sync_err = Some (errors_New ''CSRParseError''),
                      sync_crCopy = cr, sync_effects = []\<rparr>)
   \<and> (CSRPem (Spec cr) \<noteq> [] \<and> pem_Decode env (CSRPem (Spec cr)) = Some block
        \<and> ParseCertificateRequest env block = Inl e \<longrightarrow>
      Sync env cr = \<lparr>sync_err = Some e, sync_crCopy = cr, sync_effects = []\<rparr>)"
  by (simp add: Sync_def syncBody_def updateCertificateStatus_def Let_def
        errorCertificateSigningRequestNotFound_def errorCertificateSigningRequestParse_def)

theorem Sync_CSR_failure_witness:
  "Sync (testEnv readyIssuer signsCert1 updateOK) (withCSRPem '''' exampleCR)
     = \<lparr>sync_err = Some (errors_New ''CSRNotFound''),
        sync_crCopy = withCSRPem '''' exampleCR, sync_effects = []\<rparr>
   \<and> Sync (testEnv readyIssuer signsCert1 updateOK) (withCSRPem ''garbage'' exampleCR)
     = \<lparr>sync_err = Some (errors_New ''CSRParseError''),
        sync_crCopy = withCSRPem ''garbage'' exampleCR, sync_effects = []\<rparr>
   \<and> Sync (testEnv readyIssuer signsCert1 updateOK) (withCSRPem ''junk.pem'' exampleCR)
     = \<lparr>sync_err = Some (OtherError ''asn1: structure error''),
        sync_crCopy = withCSRPem ''junk.pem'' exampleCR, sync_effects = []\<rparr>"
  using
    Sync_CSR_failure [of "withCSRPem '''' exampleCR" "testEnv readyIssuer signsCert1 updateOK"]
    Sync_CSR_failure [of "withCSRPem ''garbage'' exampleCR" "testEnv readyIssuer signsCert1 updateOK"]
    Sync_CSR_failure [of "withCSRPem ''junk.pem'' exampleCR" "testEnv readyIssuer signsCert1 updateOK"
      "''junk.der''" "OtherError ''asn1: structure error''"]
  by (simp add: fixture_defs withCSRPem_def)

text \<open>
  C3, as claimed, fails: a request with a temporary certificate whose issuer is not Ready
  is not signed; the round ends at the readiness check.
\<close>

theorem Sync_temporary_issuer_not_ready:
  "isTemporaryCertificate (Some certTemporary)
   \<and> parsesTo (testEnv notReadyIssuer signsCert1 updateOK)
        (withCertificate ''temporary.pem'' exampleCR) csr1 certTemporary
   \<and> signCalls (Sync (testEnv notReadyIssuer signsCert1 updateOK)
        (withCertificate ''temporary.pem'' exampleCR)) = []"
proof -
  let ?env = "testEnv notReadyIssuer signsCert1 updateOK"
  let ?cr = "withCertificate ''temporary.pem'' exampleCR"
  have parsed: "parsesTo ?env ?cr csr1 certTemporary"
    by (rule parsesTo_temporary)
  have stopped: "resolvedBackend ?env (setCertificateRequestStatus ?env ?cr csr1 (Some certTemporary)) = None"
    by (rule resolvedBackend_notReady)
  from syncBody_unresolved [OF parsed stopped] show ?thesis
    by (simp add: temporary_serial parsed Sync_signCalls)
qed

text \<open>
  C3, amended: for a request whose \<open>Status.Certificate\<close> parses to a certificate with the
  serial number 0x1234567890, the Ready-condition computation clears \<open>Status.NotAfter\<close>
  (and it is still nil when the round ends), and a round that reaches the signing decision
  (both validations pass, the issuer is found and Ready, its backend is built) calls that
  backend's \<open>Sign\<close> exactly once, on the working copy, whether or not the certificate
  matches the CSR.
\<close>

theorem Sync_temporary_certificate:
  assumes "parsesTo env cr csr c"
    and "SerialNumber c = staticTemporarySerialNumber"
  shows "NotAfter (Status (setCertificateRequestStatus env cr csr (Some c))) = None
       \<and> NotAfter (Status (sync_crCopy (Sync env cr))) = None
       \<and> (resolvedBackend env (setCertificateRequestStatus env cr csr (Some c)) = Some i \<longrightarrow>
            signCalls (Sync env cr) = [SignCall (setCertificateRequestStatus env cr csr (Some c))]
            \<and> sync_err (syncBody env cr cr)
                = sync_err (sign i (setCertificateRequestStatus env cr csr (Some c))))"
proof -
  have temp: "isTemporaryCertificate (Some c)"
    using assms(2) by (simp add: isTemporaryCertificate_def staticTemporarySerialNumber_def)
  let ?crCopy = "setCertificateRequestStatus env cr csr (Some c)"
  have cleared: "NotAfter (Status ?crCopy) = None"
    by (simp add: setCertificateRequestStatus_temporary [OF temp]
          SetCertificateRequestCondition_def)
  have signed: "syncBody env cr cr = sign i ?crCopy" if "resolvedBackend env ?crCopy = Some i"
    using syncBody_parsed [OF assms(1) that] temp by (simp add: Let_def)
  have "NotAfter (Status (sync_crCopy (syncBody env cr cr))) = None"
  proof (cases "resolvedBackend env ?crCopy")
    case None
    with syncBody_unresolved [OF assms(1)] cleared show ?thesis by simp
  next
    case (Some j)
    with syncBody_parsed [OF assms(1) Some] temp cleared show ?thesis
      by (simp add: Let_def sign_NotAfter)
  qed
  with cleared signed show ?thesis
    by (simp add: Sync_crCopy Sync_signCalls sign_signCalls)
qed

theorem Sync_temporary_certificate_witness:
  "NotAfter (Status (sync_crCopy (Sync (testEnv readyIssuer signsCert1 updateOK)
      (withCertificate ''temporary.pem'' exampleCR)))) = None
   \<and> length (signCalls (Sync (testEnv readyIssuer signsCert1 updateOK)
      (withCertificate ''temporary.pem'' exampleCR))) = 1
   \<and> fst (certificateMatchesSpec (testEnv readyIssuer signsCert1 updateOK)
            (withCertificate ''temporary.pem'' exampleCR) csr1 certTemporary)"
proof -
  have serial: "SerialNumber certTemporary = staticTemporarySerialNumber"
    by (simp add: certTemporary_def staticTemporarySerialNumber_def)
  have "fst (certificateMatchesSpec (testEnv readyIssuer signsCert1 updateOK)
            (withCertificate ''temporary.pem'' exampleCR) csr1 certTemporary)"
    by (simp add: certificateMatchesSpec_def fixture_defs csr1_def cert1_def certTemporary_def
          EqualUnsorted_def)
  with Sync_temporary_certificate [OF parsesTo_temporary serial,
      of readyIssuer signsCert1 updateOK signsCert1]
  show ?thesis
    by (simp add: resolvedBackend_ready)
qed




text \<open>
  C5, as claimed, fails: an expired certificate that matches the CSR and carries the serial
  number 0x1234567890 is a temporary certificate.  The Ready condition gets the reason
  "TemporaryCertificate", not "Expired", and the backend's \<open>Sign\<close> is called once.
\<close>

theorem Sync_expired_temporary_signs:
  "parsesTo (testEnv readyIssuer signsCert1 updateOK)
      (withCertificate ''expired-temporary.pem'' exampleCR) csr1 certExpiredTemporary
   \<and> cert_NotAfter certExpiredTemporary < clock_Now (testEnv readyIssuer signsCert1 updateOK)
   \<and> fst (certificateMatchesSpec (testEnv readyIssuer signsCert1 updateOK)
            (withCertificate ''expired-temporary.pem'' exampleCR) csr1 certExpiredTemporary)
   \<and> readyCondition (sync_crCopy (Sync (testEnv readyIssuer signsCert1 updateOK)
        (withCertificate ''expired-temporary.pem'' exampleCR)))
       = Some (''False'', ''TemporaryCertificate'')
   \<and> length (signCalls (Sync (testEnv readyIssuer signsCert1 updateOK)
        (withCertificate ''expired-temporary.pem'' exampleCR))) = 1"
proof -
  let ?env = "testEnv readyIssuer signsCert1 updateOK"
  let ?cr = "withCertificate ''expired-temporary.pem'' exampleCR"
  let ?crCopy = "setCertificateRequestStatus ?env ?cr csr1 (Some certExpiredTemporary)"
  have parsed: "parsesTo ?env ?cr csr1 certExpiredTemporary"
    by (simp add: parsesTo_def fixture_defs)
  have late: "cert_NotAfter certExpiredTemporary < clock_Now ?env"
    by (simp add: fixture_defs certExpiredTemporary_def certExpired_def cert1_def)
  have matching: "fst (certificateMatchesSpec ?env ?cr csr1 certExpiredTemporary)"
    by (simp add: certificateMatchesSpec_def fixture_defs csr1_def cert1_def certExpired_def
          certExpiredTemporary_def EqualUnsorted_def)
  have temporary: "isTemporaryCertificate (Some certExpiredTemporary)"
    by (simp add: isTemporaryCertificate_def certExpiredTemporary_def certExpired_def cert1_def
          staticTemporarySerialNumber_def)
  have backend: "resolvedBackend ?env ?crCopy = Some signsCert1"
    by (rule resolvedBackend_ready)
  have body: "syncBody ?env ?cr ?cr = sign signsCert1 ?crCopy"
    using syncBody_parsed [OF parsed backend] temporary by (simp add: Let_def)
  have reason: "readyCondition ?crCopy = Some (''False'', ''TemporaryCertificate'')"
    by (simp add: setCertificateRequestStatus_temporary [OF temporary] readyCondition_Set
          ConditionFalse_def)
  show ?thesis
    using parsed late matching reason
    by (simp add: Sync_crCopy Sync_signCalls body sign_readyCondition sign_signCalls)
qed

text \<open>
  C5, amended: for a request whose existing certificate is not a temporary one (its serial
  number does not read as 0x1234567890), has \<open>NotAfter\<close> strictly before the controller
  clock's current time and matches the CSR, \<open>Sync\<close> sets the Ready condition to False with
  reason "Expired" and does not call the backend's \<open>Sign\<close>: expiry alone does not sign
  again.
\<close>

theorem Sync_expired_certificate:
  assumes "parsesTo env cr csr c"
    and "\<not> isTemporaryCertificate (Some c)"
    and "cert_NotAfter c < clock_Now env"
    and "fst (certificateMatchesSpec env cr csr c)"
  shows "readyCondition (sync_crCopy (Sync env cr)) = Some (ConditionFalse, ''Expired'')
       \<and> signCalls (Sync env cr) = []"
  using Sync_matching [OF assms(1,2,4)]
  by (simp add: setCertificateRequestStatus_expired [OF assms(2,3)] readyCondition_Set)

theorem Sync_expired_certificate_witness:
  "readyCondition (sync_crCopy (Sync (testEnv readyIssuer signFails updateOK)
        (withCertificate ''expired.pem'' exampleCR))) = Some (''False'', ''Expired'')
   \<and> signCalls (Sync (testEnv readyIssuer signFails updateOK)
        (withCertificate ''expired.pem'' exampleCR)) = []"
proof -
  have late: "cert_NotAfter certExpired < clock_Now (testEnv readyIssuer signFails updateOK)"
    by (simp add: fixture_defs certExpired_def cert1_def)
  from Sync_expired_certificate [OF parsesTo_expired certExpired_not_temporary late
      matches_certExpired]
  show ?thesis by (simp add: ConditionFalse_def)
qed


text \<open>
  C6, as claimed, fails, whatever \<open>CommonNameForCertificateRequest\<close> computes: the CSR
  asks for no common name, and each of two certificates carries a common name ("a.com",
  "b.com") that is among its own DNS names.  The expected common name is one value for
  the CSR, so for at least one of the two certificates the match evaluation reports a
  common-name mismatch.
\<close>

theorem certificateMatchesSpec_no_CN_special_case:
  "csr_Subject_CommonName csrNoCN = ''''
   \<and> Subject_CommonName certSynthesizedCN = ''a.com''
   \<and> Subject_CommonName certSynthesizedCN \<in> set (DNSNames certSynthesizedCN)
   \<and> Subject_CommonName certSynthesizedOtherCN = ''b.com''
   \<and> Subject_CommonName certSynthesizedOtherCN \<in> set (DNSNames certSynthesizedOtherCN)
   \<and> (\<forall>env.
         ''Common name on TLS certificate not up to date: '' @ quote env ''a.com''
           \<in> set (snd (certificateMatchesSpec env exampleCR csrNoCN certSynthesizedCN))
         \<or> ''Common name on TLS certificate not up to date: '' @ quote env ''b.com''
           \<in> set (snd (certificateMatchesSpec env exampleCR csrNoCN certSynthesizedOtherCN)))"
proof -
  have "''Common name on TLS certificate not up to date: '' @ quote env ''a.com''
           \<in> set (snd (certificateMatchesSpec env exampleCR csrNoCN certSynthesizedCN))
         \<or> ''Common name on TLS certificate not up to date: '' @ quote env ''b.com''
           \<in> set (snd (certificateMatchesSpec env exampleCR csrNoCN certSynthesizedOtherCN))"
    for env
  proof (cases "CommonNameForCertificateRequest env csrNoCN = ''a.com''")
    case True
    then have "CommonNameForCertificateRequest env csrNoCN \<noteq> ''b.com''" by simp
    then have "''Common name on TLS certificate not up to date: '' @ quote env ''b.com''
           \<in> set (snd (certificateMatchesSpec env exampleCR csrNoCN certSynthesizedOtherCN))"
      by (simp add: certificateMatchesSpec_def Let_def certSynthesizedOtherCN_def)
    then show ?thesis by blast
  next
    case False
    then have "''Common name on TLS certificate not up to date: '' @ quote env ''a.com''
           \<in> set (snd (certificateMatchesSpec env exampleCR csrNoCN certSynthesizedCN))"
      by (simp add: certificateMatchesSpec_def Let_def certSynthesizedCN_def)
    then show ?thesis by blast
  qed
  then show ?thesis
    by (simp add: csrNoCN_def certSynthesizedCN_def certSynthesizedOtherCN_def)
qed

text \<open>
  C6, amended: in the match evaluation the common name matches exactly when the
  certificate's common name equals the one expected for the CSR
  (\<open>CommonNameForCertificateRequest\<close>, a function of the CSR alone).  Any other
  certificate common name is reported first in the list of mismatches, whatever the
  certificate's DNS names are; an empty requested common name is no special case.
\<close>

theorem certificateMatchesSpec_common_name:
  "(CommonNameForCertificateRequest env csr \<noteq> Subject_CommonName cert \<longrightarrow>
      \<not> fst (certificateMatchesSpec env cr csr cert)
      \<and> hd (snd (certificateMatchesSpec env cr csr cert))
          = ''Common name on TLS certificate not up to date: '' @ quote env (Subject_CommonName cert))
   \<and> (CommonNameForCertificateRequest env csr = Subject_CommonName cert \<longrightarrow>
      ''Common name on TLS certificate not up to date: '' @ quote env (Subject_CommonName cert)
        \<notin> set (snd (certificateMatchesSpec env cr csr cert)))"
  by (simp add: certificateMatchesSpec_def Let_def)

theorem certificateMatchesSpec_common_name_witness:
  "\<not> fst (certificateMatchesSpec (testEnv readyIssuer signsCert1 updateOK) exampleCR csrNoCN
            certSynthesizedCN)
   \<and> ''Common name on TLS certificate not up to date: <csr1>''
        \<notin> set (snd (certificateMatchesSpec (testEnv readyIssuer signsCert1 updateOK) exampleCR
                       csr1 cert1))"
  using
    certificateMatchesSpec_common_name [of "testEnv readyIssuer signsCert1 updateOK" csrNoCN
      certSynthesizedCN exampleCR]
    certificateMatchesSpec_common_name [of "testEnv readyIssuer signsCert1 updateOK" csr1
      cert1 exampleCR]
  by (simp add: fixture_defs csrNoCN_def certSynthesizedCN_def csr1_def cert1_def)

text \<open>
  C7.  The status-persistence step runs at the end of every round, on the working copy as
  the body left it, also when the body returned an error: the effects of \<open>Sync\<close> are those
  of the body followed by those of \<open>updateCertificateStatus\<close>, and whenever the status
  changed exactly one \<open>Update\<close> is sent.  When the body returned the error \<open>e\<close> and the
  \<open>Update\<close> fails with \<open>s\<close>, \<open>Sync\<close> returns the aggregate of both.
\<close>

theorem Sync_deferred_status_update:
  "sync_effects (Sync env cr)
     = sync_effects (syncBody env cr cr)
       @ snd (updateCertificateStatus env cr (sync_crCopy (syncBody env cr cr)))
   \<and> (Status (sync_crCopy (syncBody env cr cr)) \<noteq> Status cr \<longrightarrow>
        updateCalls (Sync env cr) = [UpdateCall (sync_crCopy (syncBody env cr cr))])
   \<and> (sync_err (syncBody env cr cr) = Some e
        \<and> fst (updateCertificateStatus env cr (sync_crCopy (syncBody env cr cr))) = Some s \<longrightarrow>
        sync_err (Sync env cr) = Some (Aggregate [s, e]))"
proof -
  have "sync_effects (Sync env cr)
     = sync_effects (syncBody env cr cr)
       @ snd (updateCertificateStatus env cr (sync_crCopy (syncBody env cr cr)))"
    by (simp add: Sync_def Let_def case_prod_beta)
  moreover have "updateCalls (Sync env cr) = [UpdateCall (sync_crCopy (syncBody env cr cr))]"
    if "Status (sync_crCopy (syncBody env cr cr)) \<noteq> Status cr"
    using that Sync_updateCalls [of env cr] by (simp add: Sync_crCopy)
  moreover have "sync_err (Sync env cr) = Some (Aggregate [s, e])"
    if "sync_err (syncBody env cr cr) = Some e"
      and "fst (updateCertificateStatus env cr (sync_crCopy (syncBody env cr cr))) = Some s"
    using that
    by (simp add: Sync_def Let_def NewAggregate_def List.map_filter_def case_prod_beta)
  ultimately show ?thesis by blast
qed

theorem Sync_deferred_status_update_witness:
  "sync_err (syncBody (testEnv readyIssuer signFails updateConflict)
      (withCertificate ''temporary.pem'' exampleCR) (withCertificate ''temporary.pem'' exampleCR))
     = Some (OtherError ''unexpected sign call'')
   \<and> length (updateCalls (Sync (testEnv readyIssuer signFails updateConflict)
        (withCertificate ''temporary.pem'' exampleCR))) = 1
   \<and> sync_err (Sync (testEnv readyIssuer signFails updateConflict)
        (withCertificate ''temporary.pem'' exampleCR))
     = Some (Aggregate [OtherError ''conflict'', OtherError ''unexpected sign call''])"
proof -
  let ?env = "testEnv readyIssuer signFails updateConflict"
  let ?cr = "withCertificate ''temporary.pem'' exampleCR"
  let ?crCopy = "setCertificateRequestStatus ?env ?cr csr1 (Some certTemporary)"
  have parsed: "parsesTo ?env ?cr csr1 certTemporary"
    by (rule parsesTo_temporary)
  have backend: "resolvedBackend ?env ?crCopy = Some signFails"
    by (rule resolvedBackend_ready)
  have body: "syncBody ?env ?cr ?cr = sign signFails ?crCopy"
    using syncBody_parsed [OF parsed backend] temporary_serial by (simp add: Let_def)
  have failed: "sync_err (syncBody ?env ?cr ?cr) = Some (OtherError ''unexpected sign call'')"
    and copy: "sync_crCopy (syncBody ?env ?cr ?cr) = ?crCopy"
    by (simp_all add: body sign_def signFails_def)
  have changed: "Status ?crCopy \<noteq> Status ?cr"
    by (simp add: setCertificateRequestStatus_temporary [OF temporary_serial]
          SetCertificateRequestCondition_def fixture_defs)
  have store: "Update ?env ?crCopy = Some (OtherError ''conflict'')"
    by (simp add: testEnv_def controllerFixture_def updateConflict_def)
  have conflict: "fst (updateCertificateStatus ?env ?cr (sync_crCopy (syncBody ?env ?cr ?cr)))
      = Some (OtherError ''conflict'')"
    unfolding copy updateCertificateStatus_def using changed store by auto
  from Sync_deferred_status_update [of ?env ?cr "OtherError ''unexpected sign call''"
      "OtherError ''conflict''"] failed conflict changed copy
  show ?thesis by simp
qed


section \<open>Properties of the approval gate\<close>

text \<open>
  C8, as claimed, fails on the resource name: for an issuer reference with an empty group
  and the kind "Issuer", the access check is made for the name "Issuer" and not for
  "/Issuer".
\<close>

theorem Review_resource_name_empty_group:
  "GetCertificateRequestCondition (Conditions (Status (withIssuerRef '''' ''Issuer'' exampleCR)))
      CertificateRequestConditionApproved
    \<noteq> GetCertificateRequestCondition
        (Conditions (Status (withConditions [approvedTrue] (withIssuerRef '''' ''Issuer'' exampleCR))))
        CertificateRequestConditionApproved
   \<and> resourceNames (fst (Review denyAll testUser (withIssuerRef '''' ''Issuer'' exampleCR)
        (withConditions [approvedTrue] (withIssuerRef '''' ''Issuer'' exampleCR))))
      = [''Issuer'']
   \<and> ''Issuer'' \<noteq> '''' @ ''/'' @ ''Issuer''"
  by (simp add: Review_def reviewRequest_def resourceNames_def withIssuerRef_def
        withConditions_def exampleCR_def approvedTrue_def denyAll_def
        CertificateRequestConditionApproved_def filepath_Join_def Clean_def cleanStep_def)

text \<open>
  C8, amended: when neither the Approved nor the Denied condition differs between the old
  and the new object, \<open>Review\<close> returns no error and makes no access check.  When the
  Approved condition differs, it makes one access check, with verb "approve", resource
  "signers", the new object's namespace and the resource name
  \<open>filepath.Join(group, kind)\<close> of the issuer reference, and returns a Forbidden error on
  \<open>status.conditions\<close> when the answer is allowed=false.  That name is "<group>/<kind>"
  when group and kind are both non-empty, hold no "/" and are neither "." nor ".."; with
  an empty group it is the kind alone.
\<close>

theorem Review_access_check:
  "(GetCertificateRequestCondition (Conditions (Status oldCR)) CertificateRequestConditionApproved
      = GetCertificateRequestCondition (Conditions (Status newCR)) CertificateRequestConditionApproved
    \<and> GetCertificateRequestCondition (Conditions (Status oldCR)) CertificateRequestConditionDenied
      = GetCertificateRequestCondition (Conditions (Status newCR)) CertificateRequestConditionDenied
    \<longrightarrow> Review a req oldCR newCR = ([], []))
   \<and> (GetCertificateRequestCondition (Conditions (Status oldCR)) CertificateRequestConditionApproved
      \<noteq> GetCertificateRequestCondition (Conditions (Status newCR)) CertificateRequestConditionApproved
    \<longrightarrow> verbs (fst (Review a req oldCR newCR)) = [''approve'']
        \<and> map (\<lambda>s. ra_Resource (sar_ResourceAttributes s)) (fst (Review a req oldCR newCR))
            = [''signers'']
        \<and> map (\<lambda>s. ra_Namespace (sar_ResourceAttributes s)) (fst (Review a req oldCR newCR))
            = [Namespace newCR]
        \<and> resourceNames (fst (Review a req oldCR newCR))
            = [filepath_Join [Group (IssuerRef (Spec newCR)), Kind (IssuerRef (Spec newCR))]]
        \<and> (a (hd (fst (Review a req oldCR newCR))) = Inr False \<longrightarrow>
             snd (Review a req oldCR newCR)
               = [Forbidden ''status.conditions''
                    ''user does not have permissions to set approved/deny conditions'']))
   \<and> (cleanElem g \<and> cleanElem k \<longrightarrow> filepath_Join [g, k] = g @ ''/'' @ k)
   \<and> (cleanElem k \<longrightarrow> filepath_Join ['''', k] = k)"
proof -
  have unchanged: "Review a req oldCR newCR = ([], [])"
    if "GetCertificateRequestCondition (Conditions (Status oldCR)) CertificateRequestConditionApproved
      = GetCertificateRequestCondition (Conditions (Status newCR)) CertificateRequestConditionApproved"
      and "GetCertificateRequestCondition (Conditions (Status oldCR)) CertificateRequestConditionDenied
      = GetCertificateRequestCondition (Conditions (Status newCR)) CertificateRequestConditionDenied"
    using that by (simp add: Review_def)
  have approved: "verbs (fst (Review a req oldCR newCR)) = [''approve'']
        \<and> map (\<lambda>s. ra_Resource (sar_ResourceAttributes s)) (fst (Review a req oldCR newCR))
            = [''signers'']
        \<and> map (\<lambda>s. ra_Namespace (sar_ResourceAttributes s)) (fst (Review a req oldCR newCR))
            = [Namespace newCR]
        \<and> resourceNames (fst (Review a req oldCR newCR))
            = [filepath_Join [Group (IssuerRef (Spec newCR)), Kind (IssuerRef (Spec newCR))]]
        \<and> (a (hd (fst (Review a req oldCR newCR))) = Inr False \<longrightarrow>
             snd (Review a req oldCR newCR)
               = [Forbidden ''status.conditions''
                    ''user does not have permissions to set approved/deny conditions''])"
    if "GetCertificateRequestCondition (Conditions (Status oldCR)) CertificateRequestConditionApproved
      \<noteq> GetCertificateRequestCondition (Conditions (Status newCR)) CertificateRequestConditionApproved"
    using that
    by (auto simp add: Review_def reviewRequest_def verbs_def resourceNames_def Let_def
          split: sum.splits)
  show ?thesis
    using unchanged approved filepath_Join_clean filepath_Join_empty_group by blast
qed

theorem Review_access_check_witness:
  "Review denyAll testUser (withIssuerRef ''cert-manager.io'' ''Issuer'' exampleCR)
      (withConditions [readyTrue] (withIssuerRef ''cert-manager.io'' ''Issuer'' exampleCR))
     = ([], [])
   \<and> verbs (fst (Review denyAll testUser (withIssuerRef ''cert-manager.io'' ''Issuer'' exampleCR)
      (withConditions [approvedTrue] (withIssuerRef ''cert-manager.io'' ''Issuer'' exampleCR))))
     = [''approve'']
   \<and> resourceNames (fst (Review denyAll testUser (withIssuerRef ''cert-manager.io'' ''Issuer'' exampleCR)
      (withConditions [approvedTrue] (withIssuerRef ''cert-manager.io'' ''Issuer'' exampleCR))))
     = [''cert-manager.io/Issuer'']
   \<and> snd (Review denyAll testUser (withIssuerRef ''cert-manager.io'' ''Issuer'' exampleCR)
      (withConditions [approvedTrue] (withIssuerRef ''cert-manager.io'' ''Issuer'' exampleCR)))
     = [Forbidden ''status.conditions''
          ''user does not have permissions to set approved/deny conditions'']
   \<and> filepath_Join ['''', ''Issuer''] = ''Issuer''"
  using
    Review_access_check [of "withIssuerRef ''cert-manager.io'' ''Issuer'' exampleCR"
      "withConditions [readyTrue] (withIssuerRef ''cert-manager.io'' ''Issuer'' exampleCR)"
      denyAll testUser "''cert-manager.io''" "''Issuer''"]
    Review_access_check [of "withIssuerRef ''cert-manager.io'' ''Issuer'' exampleCR"
      "withConditions [approvedTrue] (withIssuerRef ''cert-manager.io'' ''Issuer'' exampleCR)"
      denyAll testUser "''cert-manager.io''" "''Issuer''"]
  by (simp add: withIssuerRef_def withConditions_def exampleCR_def approvedTrue_def
        readyTrue_def denyAll_def cleanElem_def
        CertificateRequestConditionApproved_def CertificateRequestConditionDenied_def)




section \<open>Properties of issuer resolution\<close>

text \<open>
  C9.  \<open>Issuer\<close> dispatches on the reference's kind.  An empty kind and the kind "Issuer"
  give the namespaced lister's answer for the supplied namespace and the reference's name.
  The kind "ClusterIssuer" gives the cluster lister's answer for the name, the same for
  every namespace; without a cluster lister it gives an error saying so.  Any other kind
  gives an error that names the kind and the two accepted kinds.
\<close>

theorem Issuer_dispatch:
  "(Kind ref = '''' \<or> Kind ref = IssuerKind \<longrightarrow>
      Issuer h ref ns = issuerLister h ns (Name ref))
   \<and> (Kind ref = ClusterIssuerKind \<and> clusterIssuerLister h = Some lister \<longrightarrow>
        Issuer h ref ns = lister (Name ref) \<and> Issuer h ref ns' = Issuer h ref ns)
   \<and> (Kind ref = ClusterIssuerKind \<and> clusterIssuerLister h = None \<longrightarrow>
        Issuer h ref ns = Inl (fmt_Errorf
          ''cannot get ClusterIssuer named %q as cert-manager is scoped to a single namespace''
          [Name ref]))
   \<and> (Kind ref \<noteq> '''' \<and> Kind ref \<noteq> IssuerKind \<and> Kind ref \<noteq> ClusterIssuerKind \<longrightarrow>
        Issuer h ref ns = Inl (fmt_Errorf
          ''invalid value %q for issuerRef.kind. Must be empty, %q or %q''
          [Kind ref, ''Issuer'', ''ClusterIssuer'']))"
  by (simp add: Issuer_def IssuerKind_def ClusterIssuerKind_def)

theorem Issuer_dispatch_witness:
  "Issuer exampleGetter \<lparr>Name = ''test'', Kind = '''', Group = ''''\<rparr> ''ns1'' = Inr readyIssuer
   \<and> Issuer exampleGetter \<lparr>Name = ''test'', Kind = ''Issuer'', Group = ''''\<rparr> ''ns2''
       = Inl (StatusNotFound ''test'')
   \<and> Issuer exampleGetter \<lparr>Name = ''global'', Kind = ''ClusterIssuer'', Group = ''''\<rparr> ''ns1''
       = Inr notReadyIssuer
   \<and> Issuer exampleGetter \<lparr>Name = ''global'', Kind = ''ClusterIssuer'', Group = ''''\<rparr> ''ns2''
       = Issuer exampleGetter \<lparr>Name = ''global'', Kind = ''ClusterIssuer'', Group = ''''\<rparr> ''ns1''
   \<and> Issuer namespacedGetter \<lparr>Name = ''global'', Kind = ''ClusterIssuer'', Group = ''''\<rparr> ''ns1''
       = Inl (fmt_Errorf
          ''cannot get ClusterIssuer named %q as cert-manager is scoped to a single namespace''
          [''global''])
   \<and> Issuer exampleGetter \<lparr>Name = ''test'', Kind = ''Secret'', Group = ''''\<rparr> ''ns1''
       = Inl (fmt_Errorf ''invalid value %q for issuerRef.kind. Must be empty, %q or %q''
          [''Secret'', ''Issuer'', ''ClusterIssuer''])"
  using
    Issuer_dispatch [where ref = "\<lparr>Name = ''test'', Kind = '''', Group = ''''\<rparr>"
      and h = exampleGetter and ns = "''ns1''"]
    Issuer_dispatch [where ref = "\<lparr>Name = ''test'', Kind = ''Issuer'', Group = ''''\<rparr>"
      and h = exampleGetter and ns = "''ns2''"]
    Issuer_dispatch [where ref = "\<lparr>Name = ''global'', Kind = ''ClusterIssuer'', Group = ''''\<rparr>"
      and h = exampleGetter and ns = "''ns1''" and ns' = "''ns2''"
      and lister = "\<lambda>name. if name = ''global'' then Inr notReadyIssuer
                           else Inl (StatusNotFound name)"]
    Issuer_dispatch [where ref = "\<lparr>Name = ''global'', Kind = ''ClusterIssuer'', Group = ''''\<rparr>"
      and h = namespacedGetter and ns = "''ns1''"]
    Issuer_dispatch [where ref = "\<lparr>Name = ''test'', Kind = ''Secret'', Group = ''''\<rparr>"
      and h = exampleGetter and ns = "''ns1''"]
  by (simp add: exampleGetter_def namespacedGetter_def IssuerKind_def ClusterIssuerKind_def)


end
